theory Spec2Isabelle
  imports Main
begin

section \<open>JavaScript values, errors and effects\<close>

text \<open>
  The values that flow through the ADT service of \<^verbatim>\<open>src/index.js\<close>: configuration fields,
  parsed JSON responses and arming states. Arrays and objects carry the identity of their
  allocation, since \<^verbatim>\<open>===\<close> compares references. Numbers are the integer-valued ones, with
  \<^verbatim>\<open>NaN\<close> apart; strings are ASCII.
\<close>

datatype jsval =
    JUndefined
  | JNull
  | JBool bool
  | JNum int
  | JNaN
  | JStr string
  | JArr nat "jsval list"
  | JObj nat "(string \<times> jsval) list"

text \<open>What a \<^verbatim>\<open>throw\<close> or a rejected promise carries: an error object of one of three classes.\<close>

datatype js_error =
    JsError string
  | JsTypeError string
  | JsReferenceError string

fun message :: "js_error \<Rightarrow> string" where
  "message (JsError m) = m"
| "message (JsTypeError m) = m"
| "message (JsReferenceError x) = x @ '' is not defined''"

text \<open>\<^verbatim>\<open>if (v)\<close>, \<^verbatim>\<open>!v\<close>, \<^verbatim>\<open>a && b\<close>, \<^verbatim>\<open>a || b\<close> test truthiness: every object is truthy, the empty one too.\<close>

fun truthy :: "jsval \<Rightarrow> bool" where
  "truthy JUndefined = False"
| "truthy JNull = False"
| "truthy (JBool b) = b"
| "truthy (JNum n) = (n \<noteq> 0)"
| "truthy JNaN = False"
| "truthy (JStr s) = (s \<noteq> [])"
| "truthy (JArr i xs) = True"
| "truthy (JObj i ps) = True"

definition js_or :: "jsval \<Rightarrow> jsval \<Rightarrow> jsval" where
  "js_or a b = (if truthy a then a else b)"

fun strict_eq :: "jsval \<Rightarrow> jsval \<Rightarrow> bool" where
  "strict_eq JUndefined JUndefined = True"
| "strict_eq JNull JNull = True"
| "strict_eq (JBool a) (JBool b) = (a = b)"
| "strict_eq (JNum a) (JNum b) = (a = b)"
| "strict_eq (JStr a) (JStr b) = (a = b)"
| "strict_eq (JArr i xs) (JArr j ys) = (i = j)"
| "strict_eq (JObj i ps) (JObj j qs) = (i = j)"
| "strict_eq a b = False"

definition nullish_read :: "string \<Rightarrow> string \<Rightarrow> js_error" where
  "nullish_read what k =
     JsTypeError (''Cannot read properties of '' @ what @ '' (reading '' @ [CHR 0x27] @ k @ [CHR 0x27] @ '')'')"

text \<open>
  \<^verbatim>\<open>v.k\<close> for the property names the service reads (\<^verbatim>\<open>status\<close>, \<^verbatim>\<open>token\<close>, \<^verbatim>\<open>user\<close>, \<^verbatim>\<open>id\<close>,
  \<^verbatim>\<open>masterSites\<close>, \<^verbatim>\<open>length\<close>, \<^verbatim>\<open>alarm\<close>, \<^verbatim>\<open>armingState\<close>, \<^verbatim>\<open>faultStatus\<close>, the configuration
  keys): none of them but \<^verbatim>\<open>length\<close> lives on a built-in prototype. Reading a property of
  \<^verbatim>\<open>undefined\<close> or \<^verbatim>\<open>null\<close> throws.
\<close>

fun get_prop :: "jsval \<Rightarrow> string \<Rightarrow> js_error + jsval" where
  "get_prop JUndefined k = Inl (nullish_read ''undefined'' k)"
| "get_prop JNull k = Inl (nullish_read ''null'' k)"
| "get_prop (JObj i ps) k = Inr (case map_of ps k of None \<Rightarrow> JUndefined | Some v \<Rightarrow> v)"
| "get_prop (JArr i xs) k = Inr (if k = ''length'' then JNum (int (length xs)) else JUndefined)"
| "get_prop (JStr s) k = Inr (if k = ''length'' then JNum (int (length s)) else JUndefined)"
| "get_prop v k = Inr JUndefined"

text \<open>\<^verbatim>\<open>v[0]\<close>.\<close>

fun get_first :: "jsval \<Rightarrow> js_error + jsval" where
  "get_first JUndefined = Inl (nullish_read ''undefined'' ''0'')"
| "get_first JNull = Inl (nullish_read ''null'' ''0'')"
| "get_first (JArr i xs) = Inr (case xs of [] \<Rightarrow> JUndefined | x # _ \<Rightarrow> x)"
| "get_first (JObj i ps) = Inr (case map_of ps ''0'' of None \<Rightarrow> JUndefined | Some v \<Rightarrow> v)"
| "get_first (JStr s) = Inr (case s of [] \<Rightarrow> JUndefined | c # _ \<Rightarrow> JStr [c])"
| "get_first v = Inr JUndefined"

text \<open>
  \<^verbatim>\<open>v > 0\<close>. The operand is converted to a number first: \<^verbatim>\<open>undefined\<close> to \<^verbatim>\<open>NaN\<close>, \<^verbatim>\<open>null\<close> to 0,
  \<^verbatim>\<open>true\<close> to 1. The conversion of strings, arrays and objects is the parameter \<open>tonum\<close>
  (\<open>None\<close> for \<^verbatim>\<open>NaN\<close>).
\<close>

fun gt_zero :: "(jsval \<Rightarrow> int option) \<Rightarrow> jsval \<Rightarrow> bool" where
  "gt_zero tonum (JNum n) = (0 < n)"
| "gt_zero tonum JUndefined = False"
| "gt_zero tonum JNaN = False"
| "gt_zero tonum JNull = False"
| "gt_zero tonum (JBool b) = b"
| "gt_zero tonum v = (case tonum v of None \<Rightarrow> False | Some n \<Rightarrow> 0 < n)"

subsection \<open>Effects\<close>

text \<open>
  An HTTP call of \<^verbatim>\<open>request-promise\<close>: the options object. The remote service is the
  parameter \<open>net\<close> of the operations below; it resolves with the parsed body or rejects.
\<close>

record http_request =
  req_method :: string
  req_uri :: string
  req_qs :: "(string \<times> jsval) list"
  req_headers :: "(string \<times> string) list"
  req_body :: "(string \<times> jsval) list"
  req_json :: bool
  req_gzip :: bool

type_synonym net = "http_request \<Rightarrow> js_error + jsval"

text \<open>An argument of a log call: a value, an error object, or \<^verbatim>\<open>JSON.stringify\<close> of a value.\<close>

datatype log_arg = LVal jsval | LErr js_error | LJson jsval

text \<open>
  What an operation does to the outside, in order: a call of the logger (\<^verbatim>\<open>log(...)\<close> is
  level \<open>info\<close>), a request sent to the remote service, an event emitted by the service
  object to its subscribers, a call of one of its own methods whose body runs elsewhere.
\<close>

datatype effect =
    Log string "log_arg list"
  | Request http_request
  | Emit string "jsval list"
  | Invoke string "jsval list"

fun is_request :: "effect \<Rightarrow> bool" where
  "is_request (Request r) = True"
| "is_request e = False"

fun is_emit :: "string \<Rightarrow> effect \<Rightarrow> bool" where
  "is_emit ev (Emit n args) = (n = ev)"
| "is_emit ev e = False"

section \<open>Module scope\<close>

text \<open>
  The bindings of the module: the string constants with their values, and the names bound
  to required modules, functions and the class. An identifier that is read and resolves to
  no binding throws a \<^verbatim>\<open>ReferenceError\<close>.
\<close>

type_synonym scope = "string \<Rightarrow> string option"

definition BASE_URL :: string where
  "BASE_URL = ''https://ids.trintel.co.za/Inhep-Impl-1.0-SNAPSHOT''"

definition LOGIN_PATH :: string where
  "LOGIN_PATH = ''/auth/login''"

definition SYNC_INFO :: string where
  "SYNC_INFO = ''/device/getSyncInfo''"

definition STATE_INFO :: string where
  "STATE_INFO = ''/device/getStateInfo''"

definition string_constants :: "(string \<times> string) list" where
  "string_constants =
     [(''BASE_URL'', BASE_URL),
      (''LOGIN_PATH'', LOGIN_PATH),
      (''SYNC_INFO'', SYNC_INFO),
      (''STATE_INFO'', STATE_INFO)]"

definition other_bindings :: "string list" where
  "other_bindings =
     [''Accessory'', ''hap'', ''adt'', ''contactSensor'', ''securitySystem'',
      ''smartSecurityPlatform'', ''events'', ''cheerio'', ''request'', ''nodeCache'', ''ADT'']"

definition declared :: "string \<Rightarrow> bool" where
  "declared x = (x \<in> set (map fst string_constants) \<or> x \<in> set other_bindings)"

definition program_scope :: scope where
  "program_scope = map_of string_constants"

definition ident :: "scope \<Rightarrow> string \<Rightarrow> js_error + string" where
  "ident sc x = (case sc x of None \<Rightarrow> Inl (JsReferenceError x) | Some s \<Rightarrow> Inr s)"

section \<open>The service object\<close>

text \<open>
  The status cache is an instance of the third-party \<^verbatim>\<open>node-cache\<close>: a keyed store that
  emits \<^verbatim>\<open>set\<close> after storing and \<^verbatim>\<open>expired\<close> when the time-to-live of a key has run out.
  The two counters say how many times \<^verbatim>\<open>init\<close> has subscribed its handlers.
\<close>

record node_cache =
  stdTTL :: jsval
  checkperiod :: int
  useClones :: bool
  entries :: "string \<rightharpoonup> jsval"
  set_listeners :: nat
  expired_listeners :: nat

definition cache_get :: "node_cache \<Rightarrow> string \<Rightarrow> jsval" where
  "cache_get c k = (case entries c k of None \<Rightarrow> JUndefined | Some v \<Rightarrow> v)"

definition cache_del :: "node_cache \<Rightarrow> string \<Rightarrow> node_cache" where
  "cache_del c k = c\<lparr>entries := (entries c)(k := None)\<rparr>"

text \<open>
  The fields the class \<^verbatim>\<open>ADT\<close> assigns (the logger \<^verbatim>\<open>log\<close> is the outside world: its calls
  are effects), and \<open>subscribed\<close> for the events of the object itself that have a listener.
  A field that has not been assigned yet is \<^verbatim>\<open>undefined\<close>.
\<close>

record adt =
  name :: jsval
  username :: jsval
  password :: jsval
  cacheTTL :: jsval
  keypadPin :: jsval
  statusCache :: node_cache
  subscribed :: "string list"
  targetState :: jsval
  token :: jsval
  userId :: jsval
  siteId :: jsval

text \<open>
  The members a name can resolve to on an instance other than its fields: the methods of
  the class body, of \<^verbatim>\<open>events.EventEmitter\<close> and of \<^verbatim>\<open>Object.prototype\<close>.
\<close>

definition ADT_methods :: "string list" where
  "ADT_methods =
     [''constructor'', ''init'', ''getState'', ''setState'', ''login'', ''getSyncInfo'',
      ''getStateInfo'', ''getUserPreferences'', ''getStatusFromDevice'', ''armBeamsOnly'',
      ''disarmSite'']"

definition EventEmitter_methods :: "string list" where
  "EventEmitter_methods =
     [''on'', ''once'', ''off'', ''emit'', ''addListener'', ''removeListener'',
      ''removeAllListeners'', ''prependListener'', ''prependOnceListener'', ''listeners'',
      ''rawListeners'', ''listenerCount'', ''eventNames'', ''setMaxListeners'',
      ''getMaxListeners'']"

definition Object_methods :: "string list" where
  "Object_methods =
     [''hasOwnProperty'', ''isPrototypeOf'', ''propertyIsEnumerable'', ''toString'',
      ''toLocaleString'', ''valueOf'']"

definition this_method :: "string \<Rightarrow> string option" where
  "this_method m =
     (if m \<in> set ADT_methods \<or> m \<in> set EventEmitter_methods \<or> m \<in> set Object_methods
      then Some m else None)"

text \<open>
  \<^verbatim>\<open>this.emit(ev, ...)\<close>: the listeners are the platform's; \<^verbatim>\<open>error\<close> without a listener
  throws.
\<close>

definition emit :: "adt \<Rightarrow> string \<Rightarrow> jsval list \<Rightarrow> js_error + effect list" where
  "emit a ev args =
     (if ev = ''error'' \<and> ''error'' \<notin> set (subscribed a)
      then Inl (JsError ''Unhandled error. (undefined)'')
      else Inr [Emit ev args])"

text \<open>
  A read \<^verbatim>\<open>v.k\<close> of a value that a guard or an earlier read has shown to be neither
  \<^verbatim>\<open>undefined\<close> nor \<^verbatim>\<open>null\<close>, where it cannot throw.
\<close>

definition the_prop :: "jsval \<Rightarrow> string \<Rightarrow> jsval" where
  "the_prop v k = (case get_prop v k of Inl e \<Rightarrow> JUndefined | Inr x \<Rightarrow> x)"

text \<open>
  The \<^verbatim>\<open>set\<close> handler of \<^verbatim>\<open>init\<close>:
  \<^verbatim>\<open>(key, state) => { if (state && state.alarm) this.emit('state', state); }\<close>
\<close>

definition on_set :: "string \<Rightarrow> jsval \<Rightarrow> effect list" where
  "on_set key state =
     (if truthy state \<and> truthy (the_prop state ''alarm'') then [Emit ''state'' [state]] else [])"

text \<open>\<^verbatim>\<open>this.statusCache.set(key, state)\<close>: store, then run every subscribed \<^verbatim>\<open>set\<close> handler.\<close>

definition statusCache_set :: "adt \<Rightarrow> string \<Rightarrow> jsval \<Rightarrow> adt \<times> effect list" where
  "statusCache_set a key state =
     (let c = statusCache a in
      (a\<lparr>statusCache := c\<lparr>entries := (entries c)(key \<mapsto> state)\<rparr>\<rparr>,
       concat (replicate (set_listeners c) (on_set key state))))"

section \<open>Fetching\<close>

text \<open>
  \<^verbatim>\<open>async getStatusFromDevice() { let state = { alarm: {}, contactSensors: {} } }\<close>: the local
  is built and dropped, the body has no \<^verbatim>\<open>return\<close>, so the promise resolves with
  \<^verbatim>\<open>undefined\<close>.
\<close>

definition getStatusFromDevice :: "adt \<Rightarrow> js_error + jsval" where
  "getStatusFromDevice a =
     (let state = JObj 0 [(''alarm'', JObj 1 []), (''contactSensors'', JObj 2 [])]
      in Inr JUndefined)"

definition request_headers :: "(string \<times> string) list" where
  "request_headers =
     [(''Host'', ''ids.trintel.co.za''),
      (''accept'', ''application/json, text/plain, */*''),
      (''content-type'', ''application/x-www-form-urlencoded''),
      (''user-agent'', ''SecureHome/152 CFNetwork/1496.0.1 Darwin/23.5.0''),
      (''accept-language'', ''en-GB,en;q=0.9'')]"

definition getSyncInfo_options :: "string \<Rightarrow> adt \<Rightarrow> http_request" where
  "getSyncInfo_options base a =
     \<lparr>req_method = ''POST'',
      req_uri = base @ ''/device/getSyncInfo'',
      req_qs = [],
      req_headers = request_headers,
      req_body =
        [(''token'', token a),
         (''pkg'', JStr ''com.adtsa.adtsa.chfd.mobile.ios.fadtsh''),
         (''imei'', JStr ''11B9F5D6-5B09-4FCD-882A-4055B9B8AE16'')],
      req_json = True,
      req_gzip = True\<rparr>"

text \<open>The \<^verbatim>\<open>try\<close> block of \<^verbatim>\<open>getSyncInfo\<close>.\<close>

definition getSyncInfo_try ::
  "scope \<Rightarrow> (jsval \<Rightarrow> int option) \<Rightarrow> net \<Rightarrow> adt \<Rightarrow> (js_error + unit) \<times> adt \<times> effect list" where
  "getSyncInfo_try sc tonum nt a =
     (case ident sc ''BASE_URL'' of
        Inl e \<Rightarrow> (Inl e, a, [])
      | Inr base \<Rightarrow>
          (let options = getSyncInfo_options base a in
           case nt options of
             Inl e \<Rightarrow> (Inl e, a, [Request options])
           | Inr response \<Rightarrow>
               (case get_prop response ''status'' of
                  Inl e \<Rightarrow> (Inl e, a, [Request options])
                | Inr st \<Rightarrow>
                    if strict_eq st (JStr ''SUCCESS'')
                       \<and> truthy (the_prop response ''masterSites'')
                       \<and> gt_zero tonum (the_prop (the_prop response ''masterSites'') ''length'')
                    then
                      (case get_first (the_prop response ''masterSites'') of
                         Inl e \<Rightarrow> (Inl e, a, [Request options])
                       | Inr site \<Rightarrow>
                           (case get_prop site ''id'' of
                              Inl e \<Rightarrow> (Inl e, a, [Request options])
                            | Inr i \<Rightarrow> (Inr (), a\<lparr>siteId := i\<rparr>, [Request options])))
                    else
                      (Inl (JsError ''Failed to retrieve sync info or masterSites array is empty''),
                       a, [Request options]))))"

definition getSyncInfo ::
  "scope \<Rightarrow> (jsval \<Rightarrow> int option) \<Rightarrow> net \<Rightarrow> adt \<Rightarrow> (js_error + unit) \<times> adt \<times> effect list" where
  "getSyncInfo sc tonum nt a =
     (case getSyncInfo_try sc tonum nt a of
        (Inl error, a', tr) \<Rightarrow>
          (Inl (JsError (''Failed to retrieve sync info or save ID: '' @ message error)), a', tr)
      | (Inr u, a', tr) \<Rightarrow> (Inr u, a', tr))"

section \<open>Session\<close>

definition login_options :: "string \<Rightarrow> adt \<Rightarrow> http_request" where
  "login_options loginUrl a =
     \<lparr>req_method = ''GET'',
      req_uri = loginUrl,
      req_qs =
        [(''email'', username a),
         (''password'', password a),
         (''pkg'', JStr ''com.adtsa.adtsa.chfd.mobile.ios.fadtsh''),
         (''deviceName'', JStr ''iPhone''),
         (''_appVersionCode'', JStr ''415''),
         (''_appPkg'', JStr ''com.adtsa.adtsa.chfd.mobile.ios.fadtsh''),
         (''imei'', JStr ''11B9F5D6-5B09-4FCD-882A-4055B9B8AE16''),
         (''deviceOS'', JStr ''17.4.1'')],
      req_headers = [],
      req_body = [],
      req_json = True,
      req_gzip = False\<rparr>"

text \<open>The part of \<^verbatim>\<open>login\<close> that runs once the response has passed the success test.\<close>

definition login_success ::
  "scope \<Rightarrow> (jsval \<Rightarrow> int option) \<Rightarrow> net \<Rightarrow> adt \<Rightarrow> jsval \<Rightarrow> (js_error + unit) \<times> adt \<times> effect list" where
  "login_success sc tonum nt a response =
     (let a1 = a\<lparr>token := the_prop response ''token''\<rparr> in
      case get_prop (the_prop response ''user'') ''id'' of
        Inl e \<Rightarrow> (Inl e, a1, [])
      | Inr i \<Rightarrow>
          (let a2 = a1\<lparr>userId := i\<rparr> in
           case getSyncInfo sc tonum nt a2 of
             (Inl e, a3, tr) \<Rightarrow> (Inl e, a3, tr)
           | (Inr u, a3, tr) \<Rightarrow>
               (Inr (), a3,
                tr @ [Log ''debug'' [LVal (JStr ''Login successful. Token:''), LVal (token a3)]])))"

definition login_try ::
  "scope \<Rightarrow> (jsval \<Rightarrow> int option) \<Rightarrow> net \<Rightarrow> adt \<Rightarrow> (js_error + unit) \<times> adt \<times> effect list" where
  "login_try sc tonum nt a =
     (case ident sc ''BASE_URL'' of
        Inl e \<Rightarrow> (Inl e, a, [])
      | Inr base \<Rightarrow>
          (case ident sc ''LOGIN_PATH'' of
             Inl e \<Rightarrow> (Inl e, a, [])
           | Inr path \<Rightarrow>
               (let options = login_options (base @ path) a in
                case nt options of
                  Inl e \<Rightarrow> (Inl e, a, [Request options])
                | Inr response \<Rightarrow>
                    (case get_prop response ''status'' of
                       Inl e \<Rightarrow> (Inl e, a, [Request options])
                     | Inr st \<Rightarrow>
                         if strict_eq st (JStr ''SUCCESS'') \<and> truthy (the_prop response ''token'')
                         then
                           (case login_success sc tonum nt a response of
                              (r, a', tr) \<Rightarrow> (r, a', Request options # tr))
                         else (Inl (JsError ''Login failed''), a, [Request options])))))"

definition login ::
  "scope \<Rightarrow> (jsval \<Rightarrow> int option) \<Rightarrow> net \<Rightarrow> adt \<Rightarrow> (js_error + unit) \<times> adt \<times> effect list" where
  "login sc tonum nt a =
     (case login_try sc tonum nt a of
        (Inl error, a', tr) \<Rightarrow> (Inl (JsError (''Login failed: '' @ message error)), a', tr)
      | (Inr u, a', tr) \<Rightarrow> (Inr u, a', tr))"

section \<open>Cache slot and refresh\<close>

text \<open>\<^verbatim>\<open>getState() { return this.statusCache.get(STATUS); }\<close>\<close>

definition getState :: "scope \<Rightarrow> adt \<Rightarrow> js_error + jsval" where
  "getState sc a =
     (case ident sc ''STATUS'' of
        Inl e \<Rightarrow> Inl e
      | Inr key \<Rightarrow> Inr (cache_get (statusCache a) key))"

text \<open>
  The two callbacks of the \<^verbatim>\<open>expired\<close> handler. The first is
  \<^verbatim>\<open>(state) => { this.statusCache.set(STATUS, state); }\<close>, the second the \<^verbatim>\<open>catch\<close> callback.
\<close>

definition refresh_then :: "scope \<Rightarrow> adt \<Rightarrow> jsval \<Rightarrow> (js_error + unit) \<times> adt \<times> effect list" where
  "refresh_then sc a state =
     (case ident sc ''STATUS'' of
        Inl e \<Rightarrow> (Inl e, a, [])
      | Inr key \<Rightarrow> (case statusCache_set a key state of (a', tr) \<Rightarrow> (Inr (), a', tr)))"

definition refresh_catch :: "scope \<Rightarrow> adt \<Rightarrow> js_error \<Rightarrow> (js_error + unit) \<times> adt \<times> effect list" where
  "refresh_catch sc a error =
     (let tr =
        [Log ''error''
           [LVal (JStr ''Failed refreshing status. Waiting for recovery.''),
            LVal (JStr (message error))],
         Log ''debug'' [LErr error]]
      in
      case ident sc ''STATUS'' of
        Inl e \<Rightarrow> (Inl e, a, tr)
      | Inr key \<Rightarrow>
          (let a' = a\<lparr>statusCache := cache_del (statusCache a) key\<rparr> in
           case emit a' ''error'' [] of
             Inl e \<Rightarrow> (Inl e, a', tr)
           | Inr evs \<Rightarrow> (Inr (), a', tr @ evs)))"

text \<open>
  The \<^verbatim>\<open>expired\<close> handler from the point where the promise of the fetch has settled with
  \<open>fetched\<close>: \<^verbatim>\<open>.then(...)\<close> runs on a resolved promise and passes a rejection on,
  \<^verbatim>\<open>.catch(...)\<close> runs on the rejection of the fetch or of the first callback. The result is
  the outcome of the promise the chain ends in, which nothing awaits.
\<close>

definition expired_settled ::
  "scope \<Rightarrow> adt \<Rightarrow> string \<Rightarrow> js_error + jsval \<Rightarrow> (js_error + unit) \<times> adt \<times> effect list" where
  "expired_settled sc a key fetched =
     (let tr0 = [Log ''debug'' [LVal (JStr (key @ '' expired''))]] in
      case fetched of
        Inl error \<Rightarrow>
          (case refresh_catch sc a error of (r, a', tr) \<Rightarrow> (r, a', tr0 @ tr))
      | Inr state \<Rightarrow>
          (case refresh_then sc a state of
             (Inr u, a1, tr1) \<Rightarrow> (Inr u, a1, tr0 @ tr1)
           | (Inl error, a1, tr1) \<Rightarrow>
               (case refresh_catch sc a1 error of (r, a', tr) \<Rightarrow> (r, a', tr0 @ tr1 @ tr))))"

definition on_expired ::
  "scope \<Rightarrow> adt \<Rightarrow> string \<Rightarrow> (js_error + unit) \<times> adt \<times> effect list" where
  "on_expired sc a key = expired_settled sc a key (getStatusFromDevice a)"

section \<open>Initialisation\<close>

text \<open>
  \<^verbatim>\<open>this.statusCache.on('set', ...).on('expired', ...)\<close>: one more listener for each of the
  two events; their bodies are \<open>on_set\<close> and \<open>on_expired\<close>.
\<close>

definition subscribe_handlers :: "adt \<Rightarrow> adt" where
  "subscribe_handlers a =
     (let c = statusCache a in
      a\<lparr>statusCache :=
          c\<lparr>set_listeners := Suc (set_listeners c),
            expired_listeners := Suc (expired_listeners c)\<rparr>\<rparr>)"

definition init_try ::
  "scope \<Rightarrow> (jsval \<Rightarrow> int option) \<Rightarrow> net \<Rightarrow> adt \<Rightarrow> (js_error + unit) \<times> adt \<times> effect list" where
  "init_try sc tonum nt a =
     (let tr0 =
        [Log ''info'' [LVal (JStr ''Initializing status...'')],
         Log ''debug''
           [LVal (JStr ''Enabling autoRefresh every %s seconds''), LVal (stdTTL (statusCache a))]];
          a0 = subscribe_handlers a
      in
      case login sc tonum nt a0 of
        (Inl e, a1, tr1) \<Rightarrow> (Inl e, a1, tr0 @ tr1)
      | (Inr u, a1, tr1) \<Rightarrow>
          (case getStatusFromDevice a1 of
             Inl e \<Rightarrow> (Inl e, a1, tr0 @ tr1)
           | Inr state \<Rightarrow>
               (case ident sc ''STATUS'' of
                  Inl e \<Rightarrow> (Inl e, a1, tr0 @ tr1)
                | Inr key \<Rightarrow>
                    (case statusCache_set a1 key state of
                       (a2, tr2) \<Rightarrow>
                         (let tr3 = [Log ''debug'' [LVal (JStr ''ADT platform initialized''), LJson state]] in
                          case emit a2 ''init'' [state] of
                            Inl e \<Rightarrow> (Inl e, a2, tr0 @ tr1 @ tr2 @ tr3)
                          | Inr evs \<Rightarrow> (Inr (), a2, tr0 @ tr1 @ tr2 @ tr3 @ evs))))))"

text \<open>\<^verbatim>\<open>init\<close> catches whatever its body throws and logs it; its own promise resolves.\<close>

definition init ::
  "scope \<Rightarrow> (jsval \<Rightarrow> int option) \<Rightarrow> net \<Rightarrow> adt \<Rightarrow> adt \<times> effect list" where
  "init sc tonum nt a =
     (case init_try sc tonum nt a of
        (Inl error, a', tr) \<Rightarrow>
          (a', tr @ [Log ''error'' [LVal (JStr ''Initialization failed''), LErr error]])
      | (Inr u, a', tr) \<Rightarrow> (a', tr))"

section \<open>Command dispatch\<close>

text \<open>What \<^verbatim>\<open>setState\<close> returns: \<^verbatim>\<open>null\<close> or an error object (returned, not thrown).\<close>

datatype returned = RetNull | RetError js_error

text \<open>
  The last three statements of \<^verbatim>\<open>setState\<close>, the command-issuance step:
  \<^verbatim>\<open>this.log('Setting status to', status); this.sendStateToDevice(status); return null;\<close>
  Calling a member that resolves to nothing throws a \<^verbatim>\<open>TypeError\<close>.
\<close>

definition issue_command :: "adt \<Rightarrow> jsval \<Rightarrow> (js_error + returned) \<times> adt \<times> effect list" where
  "issue_command a status =
     (let tr = [Log ''info'' [LVal (JStr ''Setting status to''), LVal status]] in
      case this_method ''sendStateToDevice'' of
        None \<Rightarrow> (Inl (JsTypeError ''this.sendStateToDevice is not a function''), a, tr)
      | Some m \<Rightarrow> (Inr RetNull, a, tr @ [Invoke m [status]]))"

definition setState :: "scope \<Rightarrow> adt \<Rightarrow> jsval \<Rightarrow> (js_error + returned) \<times> adt \<times> effect list" where
  "setState sc a status =
     (let a1 = a\<lparr>targetState := status\<rparr> in
      case getState sc a1 of
        Inl e \<Rightarrow> (Inl e, a1, [])
      | Inr currentStatus \<Rightarrow>
          if truthy currentStatus \<and> truthy (the_prop currentStatus ''alarm'') then
            (let alarm = the_prop currentStatus ''alarm'' in
             if strict_eq (the_prop alarm ''armingState'') status then
               (Inr RetNull, a1\<lparr>targetState := JUndefined\<rparr>,
                [Log ''debug'' [LVal (JStr ''No status change needed'')]])
             else if strict_eq (the_prop alarm ''armingState'') (JNum 3)
                     \<and> strict_eq (the_prop alarm ''faultStatus'') (JNum 1) then
               (Inr (RetError (JsError ''Can't arm system. System is not ready.'')),
                a1\<lparr>targetState := JUndefined\<rparr>,
                [Log ''error'' [LVal (JStr ''Can't arm system. System is not ready.'')]])
             else issue_command a1 status)
          else issue_command a1 status)"

section \<open>Construction\<close>

definition new_cache :: "jsval \<Rightarrow> node_cache" where
  "new_cache ttl =
     \<lparr>stdTTL = ttl, checkperiod = 1, useClones = False, entries = Map.empty,
      set_listeners = 0, expired_listeners = 0\<rparr>"

text \<open>
  \<^verbatim>\<open>new ADT(config, log)\<close>: the thrown error or the constructed object, and the effects.
  \<^verbatim>\<open>this.init()\<close> is not awaited; its effects are listed where it is called.
\<close>

definition ADT_new ::
  "scope \<Rightarrow> (jsval \<Rightarrow> int option) \<Rightarrow> net \<Rightarrow> jsval \<Rightarrow> (js_error + adt) \<times> effect list" where
  "ADT_new sc tonum nt config =
     (case get_prop config ''name'' of
        Inl e \<Rightarrow> (Inl e, [])
      | Inr nm \<Rightarrow>
          (let this =
             \<lparr>name = nm,
              username = the_prop config ''username'',
              password = the_prop config ''password'',
              cacheTTL = js_or (the_prop config ''cacheTTL'') (JNum 5),
              keypadPin = the_prop config ''keypadPin'',
              statusCache = new_cache (js_or (the_prop config ''cacheTTL'') (JNum 5)),
              subscribed = [],
              targetState = JUndefined,
              token = JUndefined,
              userId = JUndefined,
              siteId = JUndefined\<rparr>
           in
           if \<not> truthy (username this) \<or> \<not> truthy (password this) then
             (Inl (JsError ''Missing parameter. Please check configuration.''), [])
           else
             (let tr =
                [Log ''debug''
                   [LVal (JStr ''Initializing with username=%s, password=%s, cacheTTL=%s,''),
                    LVal (username this), LVal (password this), LVal (cacheTTL this)]]
              in
              case this_method ''attemptToRecoverFromFailure'' of
                None \<Rightarrow> (Inl (nullish_read ''undefined'' ''bind''), tr)
              | Some m \<Rightarrow>
                  (case init sc tonum nt (this\<lparr>subscribed := subscribed this @ [''error'']\<rparr>) of
                     (a, tr') \<Rightarrow> (Inr a, tr @ tr')))))"

section \<open>Sample inputs\<close>

text \<open>
  The service object as the constructor lays it out for the configuration
  \<^verbatim>\<open>{name: 'Alarm', username: 'a', password: 'b', cacheTTL: 2}\<close>, with the handlers of
  \<^verbatim>\<open>init\<close> subscribed once and the cache empty.
\<close>

definition service :: adt where
  "service =
     \<lparr>name = JStr ''Alarm'', username = JStr ''a'', password = JStr ''b'', cacheTTL = JNum 2,
      keypadPin = JUndefined,
      statusCache = (new_cache (JNum 2))\<lparr>set_listeners := 1, expired_listeners := 1\<rparr>,
      subscribed = [], targetState = JUndefined, token = JUndefined, userId = JUndefined,
      siteId = JUndefined\<rparr>"

text \<open>The same object with \<open>state\<close> in the cache under \<open>key\<close>.\<close>

definition service_caching :: "string \<Rightarrow> jsval \<Rightarrow> adt" where
  "service_caching key state =
     service\<lparr>statusCache := (statusCache service)\<lparr>entries := [key \<mapsto> state]\<rparr>\<rparr>"

text \<open>The stub \<^verbatim>\<open>{alarm: {}, contactSensors: {}}\<close> and two panel states.\<close>

definition stub_state :: jsval where
  "stub_state = JObj 10 [(''alarm'', JObj 11 []), (''contactSensors'', JObj 12 [])]"

definition panel_state :: "int \<Rightarrow> int \<Rightarrow> jsval" where
  "panel_state arming fault =
     JObj 20 [(''alarm'', JObj 21 [(''armingState'', JNum arming), (''faultStatus'', JNum fault)]),
              (''contactSensors'', JObj 22 [])]"

text \<open>
  A remote service that accepts the login with token \<^verbatim>\<open>T1\<close> and answers the sync-info
  call with the given site list.
\<close>

definition remote :: "jsval list \<Rightarrow> net" where
  "remote sites r =
     (if req_method r = ''GET''
      then Inr (JObj 30 [(''status'', JStr ''SUCCESS''), (''token'', JStr ''T1''),
                         (''user'', JObj 31 [(''id'', JNum 7)])])
      else Inr (JObj 32 [(''status'', JStr ''SUCCESS''), (''masterSites'', JArr 33 sites)]))"

text \<open>A module scope that would bind the identifier \<^verbatim>\<open>STATUS\<close>, for comparison.\<close>

definition scope_with_STATUS :: scope where
  "scope_with_STATUS = program_scope(''STATUS'' \<mapsto> ''status'')"

section \<open>Basic facts\<close>

text \<open>
  What the module scope resolves, which members exist on an instance, and what the session
  operations leave alone.
\<close>

lemma STATUS_unresolved: "ident program_scope ''STATUS'' = Inl (JsReferenceError ''STATUS'')"
  by (simp add: ident_def program_scope_def string_constants_def)

lemma BASE_URL_resolved: "ident program_scope ''BASE_URL'' = Inr BASE_URL"
  by (simp add: ident_def program_scope_def string_constants_def)

lemma LOGIN_PATH_resolved: "ident program_scope ''LOGIN_PATH'' = Inr LOGIN_PATH"
  by (simp add: ident_def program_scope_def string_constants_def)

lemma sendStateToDevice_missing: "this_method ''sendStateToDevice'' = None"
  by (simp add: this_method_def ADT_methods_def EventEmitter_methods_def Object_methods_def)

lemma attemptToRecoverFromFailure_missing: "this_method ''attemptToRecoverFromFailure'' = None"
  by (simp add: this_method_def ADT_methods_def EventEmitter_methods_def Object_methods_def)

lemma truthy_get_prop: "truthy v \<Longrightarrow> get_prop v k = Inr (the_prop v k)"
  by (cases v) (simp_all add: the_prop_def)

lemma getState_targetState [simp]: "getState sc (a\<lparr>targetState := s\<rparr>) = getState sc a"
  by (cases "ident sc ''STATUS''") (simp_all add: getState_def)

lemma setState_program_scope:
  "setState program_scope a s = (Inl (JsReferenceError ''STATUS''), a\<lparr>targetState := s\<rparr>, [])"
  by (simp add: setState_def getState_def STATUS_unresolved)

lemma getSyncInfo_try_cases:
  "(\<exists>e tr. getSyncInfo_try sc tonum nt a = (Inl e, a, tr))
   \<or> (\<exists>v tr. getSyncInfo_try sc tonum nt a = (Inr (), a\<lparr>siteId := v\<rparr>, tr))"
  by (auto simp: getSyncInfo_try_def Let_def split: sum.split)

lemma getSyncInfo_cases:
  "(\<exists>m tr. getSyncInfo sc tonum nt a =
       (Inl (JsError (''Failed to retrieve sync info or save ID: '' @ m)), a, tr))
   \<or> (\<exists>v tr. getSyncInfo sc tonum nt a = (Inr (), a\<lparr>siteId := v\<rparr>, tr))"
  using getSyncInfo_try_cases [of sc tonum nt a]
  by (auto simp: getSyncInfo_def)

lemma getSyncInfo_statusCache:
  "statusCache (fst (snd (getSyncInfo sc tonum nt a))) = statusCache a"
  using getSyncInfo_cases [of sc tonum nt a] by auto

lemma login_success_statusCache:
  "statusCache (fst (snd (login_success sc tonum nt a response))) = statusCache a"
proof (cases "get_prop (the_prop response ''user'') ''id''")
  case (Inl e)
  then show ?thesis by (simp add: login_success_def)
next
  case (Inr i)
  let ?a2 = "a\<lparr>token := the_prop response ''token'', userId := i\<rparr>"
  have "statusCache (fst (snd (getSyncInfo sc tonum nt ?a2))) = statusCache a"
    by (simp add: getSyncInfo_statusCache)
  with Inr show ?thesis
    by (cases "getSyncInfo sc tonum nt ?a2") (auto simp: login_success_def split: sum.split)
qed

lemma login_try_statusCache:
  "statusCache (fst (snd (login_try sc tonum nt a))) = statusCache a"
proof -
  have "statusCache a' = statusCache a" if "login_success sc tonum nt a response = (r, a', tr)"
    for response r a' tr
    using login_success_statusCache [of sc tonum nt a response] that by simp
  then show ?thesis
    by (auto simp: login_try_def Let_def split: sum.split prod.split)
qed

lemma login_statusCache:
  "statusCache (fst (snd (login sc tonum nt a))) = statusCache a"
  using login_try_statusCache [of sc tonum nt a]
  by (cases "login_try sc tonum nt a") (auto simp: login_def split: sum.split)

lemma login_outcome:
  "fst (login sc tonum nt a) = Inr () \<or> (\<exists>m. fst (login sc tonum nt a) = Inl (JsError (''Login failed: '' @ m)))"
  by (cases "login_try sc tonum nt a") (auto simp: login_def split: sum.split)


lemma concat_replicate_single: "concat (replicate n [x]) = replicate n x"
  by (induction n) simp_all

lemma concat_replicate_Nil: "concat (replicate n []) = []"
  by (induction n) simp_all

lemma on_set_emits_iff:
  "on_set key state =
     (if (\<exists>i ps v. state = JObj i ps \<and> map_of ps ''alarm'' = Some v \<and> truthy v)
      then [Emit ''state'' [state]] else [])"
  by (cases state) (auto simp: on_set_def the_prop_def split: option.split)

lemma truthy_iff: "truthy v \<longleftrightarrow> v \<notin> {JUndefined, JNull, JBool False, JNum 0, JNaN, JStr []}"
  by (cases v) auto

text \<open>
  With the cache readable (a scope that binds the key), the two guarded branches of
  \<^verbatim>\<open>setState\<close> do what their lines say.
\<close>

lemma setState_already_there:
  assumes "getState sc a = Inr cur" "truthy cur" "truthy (the_prop cur ''alarm'')"
    and "strict_eq (the_prop (the_prop cur ''alarm'') ''armingState'') status"
  shows "setState sc a status =
     (Inr RetNull, a\<lparr>targetState := JUndefined\<rparr>,
      [Log ''debug'' [LVal (JStr ''No status change needed'')]])"
  using assms by (simp add: setState_def Let_def)

lemma setState_not_ready:
  assumes "getState sc a = Inr cur" "truthy cur" "truthy (the_prop cur ''alarm'')"
    and "\<not> strict_eq (the_prop (the_prop cur ''alarm'') ''armingState'') status"
    and "strict_eq (the_prop (the_prop cur ''alarm'') ''armingState'') (JNum 3)"
    and "strict_eq (the_prop (the_prop cur ''alarm'') ''faultStatus'') (JNum 1)"
  shows "setState sc a status =
     (Inr (RetError (JsError ''Can't arm system. System is not ready.'')),
      a\<lparr>targetState := JUndefined\<rparr>,
      [Log ''error'' [LVal (JStr ''Can't arm system. System is not ready.'')]])"
  using assms by (simp add: setState_def Let_def)

section \<open>The undeclared cache key\<close>

text \<open>
  Claim C9. Every access to the cache slot reads the identifier \<^verbatim>\<open>STATUS\<close>, which the
  module never declares: \<^verbatim>\<open>getState\<close>, the \<^verbatim>\<open>set\<close> of the refresh callback and the \<^verbatim>\<open>del\<close> of
  the recovery callback all throw \<^verbatim>\<open>ReferenceError: STATUS is not defined\<close>, so
  \<^verbatim>\<open>getState\<close> never returns a cached state. The \<^verbatim>\<open>try\<close> block of \<^verbatim>\<open>init\<close> ends either in
  the failure of the login or, once the login has succeeded, in that reference error at
  its initial \<^verbatim>\<open>set\<close>; in both cases \<^verbatim>\<open>init\<close> leaves the entries of the cache as they were.
\<close>

theorem STATUS_is_never_bound:
  "\<not> declared ''STATUS''
   \<and> getState program_scope a = Inl (JsReferenceError ''STATUS'')
   \<and> (\<forall>v. getState program_scope a \<noteq> Inr v)
   \<and> refresh_then program_scope a state = (Inl (JsReferenceError ''STATUS''), a, [])
   \<and> fst (refresh_catch program_scope a error) = Inl (JsReferenceError ''STATUS'')
   \<and> fst (snd (refresh_catch program_scope a error)) = a
   \<and> (fst (login program_scope tonum nt (subscribe_handlers a)) = Inr ()
        \<longrightarrow> fst (init_try program_scope tonum nt a) = Inl (JsReferenceError ''STATUS''))
   \<and> (fst (init_try program_scope tonum nt a) = Inl (JsReferenceError ''STATUS'')
        \<or> (\<exists>m. fst (init_try program_scope tonum nt a) = Inl (JsError (''Login failed: '' @ m))))
   \<and> entries (statusCache (fst (init program_scope tonum nt a))) = entries (statusCache a)"
proof -
  let ?a0 = "subscribe_handlers a"
  obtain r a1 tr1 where l: "login program_scope tonum nt ?a0 = (r, a1, tr1)"
    by (cases "login program_scope tonum nt ?a0") auto
  have c1: "entries (statusCache a1) = entries (statusCache a)"
    using login_statusCache [of program_scope tonum nt ?a0] l
    by (simp add: subscribe_handlers_def Let_def)
  have o1: "r = Inr () \<or> (\<exists>m. r = Inl (JsError (''Login failed: '' @ m)))"
    using login_outcome [of program_scope tonum nt ?a0] l by simp
  have t: "init_try program_scope tonum nt a =
      (case r of Inl e \<Rightarrow> (Inl e, a1, [Log ''info'' [LVal (JStr ''Initializing status...'')],
         Log ''debug'' [LVal (JStr ''Enabling autoRefresh every %s seconds''), LVal (stdTTL (statusCache a))]] @ tr1)
       | Inr u \<Rightarrow> (Inl (JsReferenceError ''STATUS''), a1, [Log ''info'' [LVal (JStr ''Initializing status...'')],
         Log ''debug'' [LVal (JStr ''Enabling autoRefresh every %s seconds''), LVal (stdTTL (statusCache a))]] @ tr1))"
    using l by (simp add: init_try_def Let_def getStatusFromDevice_def STATUS_unresolved split: sum.split)
  have g: "getState program_scope a = Inl (JsReferenceError ''STATUS'')"
    by (simp add: getState_def STATUS_unresolved)
  have i1: "fst (init_try program_scope tonum nt a) = Inl (JsReferenceError ''STATUS'')
        \<or> (\<exists>m. fst (init_try program_scope tonum nt a) = Inl (JsError (''Login failed: '' @ m)))"
    using o1 by (auto simp: t)
  have i0: "fst (init_try program_scope tonum nt a) = Inl (JsReferenceError ''STATUS'')"
    if "fst (login program_scope tonum nt ?a0) = Inr ()"
    using that l by (simp add: t)
  have i2: "entries (statusCache (fst (init program_scope tonum nt a))) = entries (statusCache a)"
    using c1 by (simp add: init_def t split: sum.split)
  have d: "\<not> declared ''STATUS''"
    by (simp add: declared_def string_constants_def other_bindings_def)
  have rt: "refresh_then program_scope a state = (Inl (JsReferenceError ''STATUS''), a, [])"
    by (simp add: refresh_then_def STATUS_unresolved)
  have rc: "fst (refresh_catch program_scope a error) = Inl (JsReferenceError ''STATUS'')"
    "fst (snd (refresh_catch program_scope a error)) = a"
    by (simp_all add: refresh_catch_def STATUS_unresolved)
  show ?thesis
    using d g rt rc i0 i1 i2 by simp
qed

text \<open>
  At a service object that holds a disarmed panel state under the key \<^verbatim>\<open>status\<close>,
  \<^verbatim>\<open>getState\<close> still throws; with a remote service that accepts the login and returns one
  site, \<^verbatim>\<open>init\<close> gets as far as its \<^verbatim>\<open>set\<close> and fails there.
\<close>

theorem STATUS_is_never_bound_witness:
  "getState program_scope (service_caching ''status'' (panel_state 1 0)) = Inl (JsReferenceError ''STATUS'')
   \<and> fst (login program_scope (\<lambda>v. None) (remote [JObj 34 [(''id'', JNum 42)]])
          (subscribe_handlers service)) = Inr ()
   \<and> fst (init_try program_scope (\<lambda>v. None) (remote [JObj 34 [(''id'', JNum 42)]]) service)
       = Inl (JsReferenceError ''STATUS'')"
proof -
  have "fst (login program_scope (\<lambda>v. None) (remote [JObj 34 [(''id'', JNum 42)]])
          (subscribe_handlers service)) = Inr ()"
    by (simp add: login_def login_try_def login_success_def getSyncInfo_def
        getSyncInfo_try_def BASE_URL_resolved LOGIN_PATH_resolved remote_def login_options_def
        getSyncInfo_options_def the_prop_def Let_def)
  then show ?thesis
    using STATUS_is_never_bound [of "service_caching ''status'' (panel_state 1 0)"]
      STATUS_is_never_bound [of service _ _ "\<lambda>v. None" "remote [JObj 34 [(''id'', JNum 42)]]"]
    by blast
qed

section \<open>The missing command method\<close>

text \<open>
  Claim C10. \<^verbatim>\<open>sendStateToDevice\<close> is no member of an \<^verbatim>\<open>ADT\<close> instance. No run of
  \<^verbatim>\<open>setState\<close> sends a request to the remote service, whatever the module scope binds.
  Whenever \<^verbatim>\<open>setState\<close> reaches its command-issuance step (the cache read returns, and the
  cached value is falsy, or has no truthy alarm section, or its arming state differs from
  the requested one while the not-ready combination does not hold), the call throws
  \<^verbatim>\<open>TypeError: this.sendStateToDevice is not a function\<close> after the log line, with
  \<^verbatim>\<open>targetState\<close> still set.
\<close>

theorem setState_never_issues_a_command:
  "this_method ''sendStateToDevice'' = None
   \<and> filter is_request (snd (snd (setState sc a status))) = []
   \<and> (getState sc a = Inr cur
        \<and> (\<not> truthy cur \<or> \<not> truthy (the_prop cur ''alarm'')
            \<or> (\<not> strict_eq (the_prop (the_prop cur ''alarm'') ''armingState'') status
                \<and> \<not> (strict_eq (the_prop (the_prop cur ''alarm'') ''armingState'') (JNum 3)
                       \<and> strict_eq (the_prop (the_prop cur ''alarm'') ''faultStatus'') (JNum 1))))
      \<longrightarrow> setState sc a status =
            (Inl (JsTypeError ''this.sendStateToDevice is not a function''),
             a\<lparr>targetState := status\<rparr>,
             [Log ''info'' [LVal (JStr ''Setting status to''), LVal status]]))"
proof -
  have i: "issue_command b status =
      (Inl (JsTypeError ''this.sendStateToDevice is not a function''), b,
       [Log ''info'' [LVal (JStr ''Setting status to''), LVal status]])" for b
    by (simp add: issue_command_def sendStateToDevice_missing)
  have "filter is_request (snd (snd (setState sc a status))) = []"
    by (simp add: setState_def Let_def i split: sum.split)
  moreover have "setState sc a status =
            (Inl (JsTypeError ''this.sendStateToDevice is not a function''),
             a\<lparr>targetState := status\<rparr>,
             [Log ''info'' [LVal (JStr ''Setting status to''), LVal status]])"
    if "getState sc a = Inr cur"
      and "\<not> truthy cur \<or> \<not> truthy (the_prop cur ''alarm'')
            \<or> (\<not> strict_eq (the_prop (the_prop cur ''alarm'') ''armingState'') status
                \<and> \<not> (strict_eq (the_prop (the_prop cur ''alarm'') ''armingState'') (JNum 3)
                       \<and> strict_eq (the_prop (the_prop cur ''alarm'') ''faultStatus'') (JNum 1)))"
    using that by (auto simp: setState_def Let_def i)
  ultimately show ?thesis
    using sendStateToDevice_missing by blast
qed

text \<open>
  Under a scope that binds \<^verbatim>\<open>STATUS\<close> the step is reached: with the cache empty, and with a
  disarmed panel cached while arming is requested.
\<close>

theorem setState_never_issues_a_command_witness:
  "getState scope_with_STATUS service = Inr JUndefined
   \<and> setState scope_with_STATUS service (JNum 1) =
        (Inl (JsTypeError ''this.sendStateToDevice is not a function''),
         service\<lparr>targetState := JNum 1\<rparr>,
         [Log ''info'' [LVal (JStr ''Setting status to''), LVal (JNum 1)]])
   \<and> getState scope_with_STATUS (service_caching ''status'' (panel_state 0 0)) = Inr (panel_state 0 0)
   \<and> setState scope_with_STATUS (service_caching ''status'' (panel_state 0 0)) (JNum 1) =
        (Inl (JsTypeError ''this.sendStateToDevice is not a function''),
         (service_caching ''status'' (panel_state 0 0))\<lparr>targetState := JNum 1\<rparr>,
         [Log ''info'' [LVal (JStr ''Setting status to''), LVal (JNum 1)]])"
proof -
  have g1: "getState scope_with_STATUS service = Inr JUndefined"
    by (simp add: getState_def scope_with_STATUS_def ident_def cache_get_def service_def new_cache_def)
  have g2: "getState scope_with_STATUS (service_caching ''status'' (panel_state 0 0)) = Inr (panel_state 0 0)"
    by (simp add: getState_def scope_with_STATUS_def ident_def cache_get_def service_caching_def)
  have p: "\<not> strict_eq (the_prop (the_prop (panel_state 0 0) ''alarm'') ''armingState'') (JNum 1)
     \<and> \<not> (strict_eq (the_prop (the_prop (panel_state 0 0) ''alarm'') ''armingState'') (JNum 3)
            \<and> strict_eq (the_prop (the_prop (panel_state 0 0) ''alarm'') ''faultStatus'') (JNum 1))"
    by (simp add: panel_state_def the_prop_def)
  show ?thesis
    using g1 g2 p
      setState_never_issues_a_command [of scope_with_STATUS service "JNum 1" JUndefined]
      setState_never_issues_a_command [of scope_with_STATUS "service_caching ''status'' (panel_state 0 0)"
        "JNum 1" "panel_state 0 0"]
    by simp
qed

section \<open>Command dispatch against the cached state\<close>

text \<open>
  Claim C2. \<^verbatim>\<open>setState(s)\<close>, called while the cached state already has
  \<^verbatim>\<open>alarm.armingState === s\<close>, should send nothing, clear \<^verbatim>\<open>targetState\<close> and return
  \<^verbatim>\<open>null\<close>. The code at such an input, a service object caching an armed panel
  (arming state 1) and the request 1: the cache read throws on the undeclared key, the call
  ends in that \<^verbatim>\<open>ReferenceError\<close> instead of returning \<^verbatim>\<open>null\<close>, and \<^verbatim>\<open>targetState\<close> stays 1.
\<close>

theorem setState_matching_state_throws:
  "the_prop (the_prop (panel_state 1 0) ''alarm'') ''armingState'' = JNum 1
   \<and> setState program_scope (service_caching ''status'' (panel_state 1 0)) (JNum 1) =
       (Inl (JsReferenceError ''STATUS''),
        (service_caching ''status'' (panel_state 1 0))\<lparr>targetState := JNum 1\<rparr>, [])"
  by (simp add: setState_program_scope panel_state_def the_prop_def)

text \<open>
  Claim C3. \<^verbatim>\<open>setState\<close>, called while the cached state reports arming state 3 (not
  ready) and fault status 1, should return an error value, send nothing and clear
  \<^verbatim>\<open>targetState\<close>. The code at such an input: it throws the \<^verbatim>\<open>ReferenceError\<close> of the cache
  read, returns no value, and \<^verbatim>\<open>targetState\<close> stays at the request.
\<close>

theorem setState_not_ready_throws:
  "the_prop (the_prop (panel_state 3 1) ''alarm'') ''armingState'' = JNum 3
   \<and> the_prop (the_prop (panel_state 3 1) ''alarm'') ''faultStatus'' = JNum 1
   \<and> setState program_scope (service_caching ''status'' (panel_state 3 1)) (JNum 1) =
       (Inl (JsReferenceError ''STATUS''),
        (service_caching ''status'' (panel_state 3 1))\<lparr>targetState := JNum 1\<rparr>, [])"
  by (simp add: setState_program_scope panel_state_def the_prop_def)

text \<open>
  Claim C7. \<^verbatim>\<open>targetState\<close> should be cleared after every call of \<^verbatim>\<open>setState\<close>. The code
  on a service object with an empty cache and the request 1: the call throws and
  \<^verbatim>\<open>targetState\<close> is still 1 afterwards; under a scope that binds the key the call reaches
  the command-issuance step, throws there, and \<^verbatim>\<open>targetState\<close> is still 1 as well.
\<close>

theorem setState_leaves_targetState_set:
  "targetState (fst (snd (setState program_scope service (JNum 1)))) = JNum 1
   \<and> fst (setState program_scope service (JNum 1)) = Inl (JsReferenceError ''STATUS'')
   \<and> targetState (fst (snd (setState scope_with_STATUS service (JNum 1)))) = JNum 1
   \<and> fst (setState scope_with_STATUS service (JNum 1))
       = Inl (JsTypeError ''this.sendStateToDevice is not a function'')"
proof -
  have "setState scope_with_STATUS service (JNum 1) =
      (Inl (JsTypeError ''this.sendStateToDevice is not a function''),
       service\<lparr>targetState := JNum 1\<rparr>,
       [Log ''info'' [LVal (JStr ''Setting status to''), LVal (JNum 1)]])"
    by (simp add: setState_def getState_def scope_with_STATUS_def ident_def cache_get_def
        service_def new_cache_def issue_command_def sendStateToDevice_missing Let_def)
  then show ?thesis
    by (simp add: setState_program_scope)
qed

section \<open>Refresh on expiry\<close>

text \<open>
  Claim C5. A refresh that fails on expiry should delete the cached value and raise
  exactly one \<^verbatim>\<open>error\<close> event. The code at the \<^verbatim>\<open>expired\<close> event of the key \<^verbatim>\<open>status\<close>:
  the fetch resolves, the \<^verbatim>\<open>set\<close> of the first callback throws on the undeclared key,
  the recovery callback logs and throws at its \<^verbatim>\<open>del\<close> for the same reason, so the
  object is left as it was and the trace holds three log lines and no event. The same
  happens when the fetch itself is taken to have rejected. Whatever the object, the key
  and the outcome of the fetch, the handler emits no \<^verbatim>\<open>error\<close> event and changes nothing,
  and a \<^verbatim>\<open>getState\<close> afterwards throws.
\<close>

theorem failed_refresh_raises_no_signal:
  "on_expired program_scope service ''status'' =
     (Inl (JsReferenceError ''STATUS''), service,
      [Log ''debug'' [LVal (JStr ''status expired'')],
       Log ''error'' [LVal (JStr ''Failed refreshing status. Waiting for recovery.''),
                      LVal (JStr ''STATUS is not defined'')],
       Log ''debug'' [LErr (JsReferenceError ''STATUS'')]])
   \<and> expired_settled program_scope (service_caching ''status'' (panel_state 1 0)) ''status''
       (Inl (JsError ''Failed to retrieve state info'')) =
     (Inl (JsReferenceError ''STATUS''), service_caching ''status'' (panel_state 1 0),
      [Log ''debug'' [LVal (JStr ''status expired'')],
       Log ''error'' [LVal (JStr ''Failed refreshing status. Waiting for recovery.''),
                      LVal (JStr ''Failed to retrieve state info'')],
       Log ''debug'' [LErr (JsError ''Failed to retrieve state info'')]])
   \<and> filter (is_emit ''error'') (snd (snd (expired_settled program_scope a key fetched))) = []
   \<and> fst (snd (expired_settled program_scope a key fetched)) = a
   \<and> getState program_scope (fst (snd (expired_settled program_scope a key fetched)))
       = Inl (JsReferenceError ''STATUS'')"
proof -
  have "filter (is_emit ''error'') (snd (snd (expired_settled program_scope a key fetched))) = []
    \<and> fst (snd (expired_settled program_scope a key fetched)) = a"
    by (cases fetched)
      (simp_all add: expired_settled_def refresh_then_def refresh_catch_def STATUS_unresolved)
  then show ?thesis
    by (simp add: on_expired_def expired_settled_def getStatusFromDevice_def refresh_then_def
        refresh_catch_def STATUS_unresolved getState_def)
qed

section \<open>The state fetch\<close>

text \<open>
  Claim C1. \<^verbatim>\<open>getStatusFromDevice\<close> should resolve with a state whose alarm section is
  populated, or reject. The code, at every call: the promise resolves with \<^verbatim>\<open>undefined\<close>,
  a value that is no state at all (reading its alarm section throws) and no rejection
  either.
\<close>

theorem getStatusFromDevice_resolves_undefined:
  "getStatusFromDevice a = Inr JUndefined
   \<and> get_prop JUndefined ''alarm'' = Inl (nullish_read ''undefined'' ''alarm'')"
  by (simp add: getStatusFromDevice_def)

section \<open>Notification on a cache set\<close>

text \<open>
  Claim C4, as stated, at the stub \<^verbatim>\<open>{alarm: {}, contactSensors: {}}\<close>: the claim says a
  cache set of a state with an empty alarm section emits nothing. The handler tests
  truthiness, and an empty object is truthy: the set stores the stub and emits one
  \<^verbatim>\<open>state\<close> event for it.
\<close>

theorem stub_alarm_is_notified:
  "statusCache_set service ''status'' stub_state =
     (service_caching ''status'' stub_state, [Emit ''state'' [stub_state]])"
  by (simp add: statusCache_set_def service_caching_def service_def new_cache_def on_set_def
      stub_state_def the_prop_def)

text \<open>
  Claim C4, amended. A cache set always stores the value. Each subscribed handler emits
  one \<^verbatim>\<open>state\<close> event when the value is an object whose \<^verbatim>\<open>alarm\<close> property is truthy, and
  nothing otherwise: nothing for a value that is no object, for a missing \<^verbatim>\<open>alarm\<close>, and
  for an \<^verbatim>\<open>alarm\<close> that is \<^verbatim>\<open>undefined\<close>, \<^verbatim>\<open>null\<close>, \<^verbatim>\<open>false\<close>, 0, \<^verbatim>\<open>NaN\<close> or the empty string, which
  are all the falsy values there are. Every object is truthy, the empty one included.
\<close>

theorem set_stores_and_notifies_truthy_alarm:
  "entries (statusCache (fst (statusCache_set a key state))) key = Some state
   \<and> snd (statusCache_set a key state) =
       (if (\<exists>i ps v. state = JObj i ps \<and> map_of ps ''alarm'' = Some v \<and> truthy v)
        then replicate (set_listeners (statusCache a)) (Emit ''state'' [state]) else [])
   \<and> (truthy v \<longleftrightarrow> v \<notin> {JUndefined, JNull, JBool False, JNum 0, JNaN, JStr []})"
proof -
  have "entries (statusCache (fst (statusCache_set a key state))) key = Some state"
    by (simp add: statusCache_set_def Let_def)
  moreover have "snd (statusCache_set a key state) =
       (if (\<exists>i ps v. state = JObj i ps \<and> map_of ps ''alarm'' = Some v \<and> truthy v)
        then replicate (set_listeners (statusCache a)) (Emit ''state'' [state]) else [])"
    by (auto simp: statusCache_set_def Let_def on_set_emits_iff concat_replicate_single
        concat_replicate_Nil)
  ultimately show ?thesis
    using truthy_iff [of v] by blast
qed

text \<open>
  On the sample object, whose handler is subscribed once: an armed panel state and the
  stub are notified; a \<^verbatim>\<open>null\<close> alarm, a missing alarm and \<^verbatim>\<open>undefined\<close> are stored in
  silence.
\<close>

theorem set_stores_and_notifies_truthy_alarm_witness:
  "snd (statusCache_set service ''status'' (panel_state 1 0)) = [Emit ''state'' [panel_state 1 0]]
   \<and> snd (statusCache_set service ''status'' stub_state) = [Emit ''state'' [stub_state]]
   \<and> snd (statusCache_set service ''status'' (JObj 40 [(''alarm'', JNull)])) = []
   \<and> snd (statusCache_set service ''status'' (JObj 41 [(''contactSensors'', JObj 42 [])])) = []
   \<and> snd (statusCache_set service ''status'' JUndefined) = []
   \<and> entries (statusCache (fst (statusCache_set service ''status'' JUndefined))) ''status''
       = Some JUndefined"
  using set_stores_and_notifies_truthy_alarm [of service "''status''" "panel_state 1 0"]
    set_stores_and_notifies_truthy_alarm [of service "''status''" stub_state]
    set_stores_and_notifies_truthy_alarm [of service "''status''" "JObj 40 [(''alarm'', JNull)]"]
    set_stores_and_notifies_truthy_alarm [of service "''status''" "JObj 41 [(''contactSensors'', JObj 42 [])]"]
    set_stores_and_notifies_truthy_alarm [of service "''status''" JUndefined]
  by (simp add: panel_state_def stub_state_def service_def new_cache_def)

section \<open>Site resolution\<close>

text \<open>
  Claim C6. When the sync-info call returns an object with \<^verbatim>\<open>status\<close> \<^verbatim>\<open>'SUCCESS'\<close> and a
  non-empty \<^verbatim>\<open>masterSites\<close> array whose first entry has an \<^verbatim>\<open>id\<close> to read (any entry but
  \<^verbatim>\<open>null\<close>), \<^verbatim>\<open>getSyncInfo\<close> resolves and sets \<^verbatim>\<open>siteId\<close> to that \<^verbatim>\<open>id\<close>. When \<^verbatim>\<open>masterSites\<close> is
  absent or the empty array, it rejects with the sync error and the object, \<^verbatim>\<open>siteId\<close>
  included, is unchanged; so it does for a response that is no object and so has no
  \<^verbatim>\<open>masterSites\<close>. Whenever it rejects, for any response or none, the object is unchanged
  and the error carries the sync-info prefix.
\<close>

theorem getSyncInfo_siteId:
  "(nt (getSyncInfo_options BASE_URL a) = Inr (JObj j ps)
      \<and> map_of ps ''status'' = Some (JStr ''SUCCESS'')
      \<and> map_of ps ''masterSites'' = Some (JArr i (site # rest))
      \<and> get_prop site ''id'' = Inr v
     \<longrightarrow> getSyncInfo program_scope tonum nt a =
           (Inr (), a\<lparr>siteId := v\<rparr>, [Request (getSyncInfo_options BASE_URL a)]))
   \<and> (nt (getSyncInfo_options BASE_URL a) = Inr (JObj j ps)
      \<and> (map_of ps ''masterSites'' = None \<or> map_of ps ''masterSites'' = Some (JArr i []))
     \<longrightarrow> getSyncInfo program_scope tonum nt a =
           (Inl (JsError (''Failed to retrieve sync info or save ID: ''
                          @ ''Failed to retrieve sync info or masterSites array is empty'')),
            a, [Request (getSyncInfo_options BASE_URL a)]))
   \<and> (nt (getSyncInfo_options BASE_URL a) = Inr response
      \<and> (the_prop response ''masterSites'' = JUndefined
          \<or> the_prop response ''masterSites'' = JArr i [])
     \<longrightarrow> (\<exists>m. getSyncInfo program_scope tonum nt a =
           (Inl (JsError (''Failed to retrieve sync info or save ID: '' @ m)),
            a, [Request (getSyncInfo_options BASE_URL a)])))
   \<and> (fst (getSyncInfo program_scope tonum nt a) = Inl e
     \<longrightarrow> fst (snd (getSyncInfo program_scope tonum nt a)) = a
         \<and> (\<exists>m. e = JsError (''Failed to retrieve sync info or save ID: '' @ m)))"
proof -
  have ok: "getSyncInfo program_scope tonum nt a =
           (Inr (), a\<lparr>siteId := v\<rparr>, [Request (getSyncInfo_options BASE_URL a)])"
    if "nt (getSyncInfo_options BASE_URL a) = Inr (JObj j ps)"
      and "map_of ps ''status'' = Some (JStr ''SUCCESS'')"
      and "map_of ps ''masterSites'' = Some (JArr i (site # rest))"
      and "get_prop site ''id'' = Inr v"
    using that
    by (simp add: getSyncInfo_def getSyncInfo_try_def BASE_URL_resolved the_prop_def)
  have empty: "getSyncInfo program_scope tonum nt a =
           (Inl (JsError (''Failed to retrieve sync info or save ID: ''
                          @ ''Failed to retrieve sync info or masterSites array is empty'')),
            a, [Request (getSyncInfo_options BASE_URL a)])"
    if "nt (getSyncInfo_options BASE_URL a) = Inr (JObj j ps)"
      and "map_of ps ''masterSites'' = None \<or> map_of ps ''masterSites'' = Some (JArr i [])"
    using that
    by (auto simp: getSyncInfo_def getSyncInfo_try_def BASE_URL_resolved the_prop_def)
  have none: "\<exists>m. getSyncInfo program_scope tonum nt a =
           (Inl (JsError (''Failed to retrieve sync info or save ID: '' @ m)),
            a, [Request (getSyncInfo_options BASE_URL a)])"
    if "nt (getSyncInfo_options BASE_URL a) = Inr response"
      and "the_prop response ''masterSites'' = JUndefined
          \<or> the_prop response ''masterSites'' = JArr i []"
  proof -
    have l: "the_prop (JArr i []) ''length'' = JNum 0"
      by (simp add: the_prop_def)
    show ?thesis
    proof (cases "get_prop response ''status''")
      case (Inl e)
      with that(1) show ?thesis
        by (simp add: getSyncInfo_def getSyncInfo_try_def BASE_URL_resolved)
    next
      case (Inr st)
      with that l show ?thesis
        by (auto simp: getSyncInfo_def getSyncInfo_try_def BASE_URL_resolved)
    qed
  qed
  have failed: "fst (snd (getSyncInfo program_scope tonum nt a)) = a
         \<and> (\<exists>m. e = JsError (''Failed to retrieve sync info or save ID: '' @ m))"
    if "fst (getSyncInfo program_scope tonum nt a) = Inl e"
    using that getSyncInfo_cases [of program_scope tonum nt a] by auto
  show ?thesis
    using ok empty none failed by blast
qed

text \<open>
  With one site of id 42 the site id becomes 42; with an empty site list the call fails
  and the site id stays \<^verbatim>\<open>undefined\<close>.
\<close>

theorem getSyncInfo_siteId_witness:
  "getSyncInfo program_scope (\<lambda>v. None) (remote [JObj 34 [(''id'', JNum 42)]]) service =
     (Inr (), service\<lparr>siteId := JNum 42\<rparr>, [Request (getSyncInfo_options BASE_URL service)])
   \<and> getSyncInfo program_scope (\<lambda>v. None) (remote []) service =
     (Inl (JsError (''Failed to retrieve sync info or save ID: ''
                    @ ''Failed to retrieve sync info or masterSites array is empty'')),
      service, [Request (getSyncInfo_options BASE_URL service)])
   \<and> siteId (fst (snd (getSyncInfo program_scope (\<lambda>v. None) (remote []) service))) = JUndefined"
proof -
  have r: "remote sites (getSyncInfo_options BASE_URL service) =
      Inr (JObj 32 [(''status'', JStr ''SUCCESS''), (''masterSites'', JArr 33 sites)])" for sites
    by (simp add: remote_def getSyncInfo_options_def)
  have s: "siteId service = JUndefined"
    by (simp add: service_def)
  show ?thesis
    using r [of "[JObj 34 [(''id'', JNum 42)]]"] r [of "[]"] s
      getSyncInfo_siteId [where nt = "remote [JObj 34 [(''id'', JNum 42)]]" and a = service
        and j = 32 and i = 33 and site = "JObj 34 [(''id'', JNum 42)]" and rest = "[]"
        and v = "JNum 42" and tonum = "\<lambda>v. None"
        and ps = "[(''status'', JStr ''SUCCESS''), (''masterSites'', JArr 33 [JObj 34 [(''id'', JNum 42)]])]"]
      getSyncInfo_siteId [where nt = "remote []" and a = service and j = 32 and i = 33
        and tonum = "\<lambda>v. None"
        and ps = "[(''status'', JStr ''SUCCESS''), (''masterSites'', JArr 33 [])]"]
    by simp
qed

section \<open>Construction of the service\<close>

text \<open>
  Claim C8. A configuration object without \<^verbatim>\<open>username\<close> or without \<^verbatim>\<open>password\<close> makes the
  constructor throw \<^verbatim>\<open>Missing parameter. Please check configuration.\<close> with no effect
  before it, so before any network call; the same holds when either is present but falsy.
  When both are truthy, whatever the constructor does, it does not throw that error.
\<close>

theorem construction_fails_fast:
  "(map_of ps ''username'' = None \<or> map_of ps ''password'' = None
      \<longrightarrow> ADT_new sc tonum nt (JObj i ps) =
            (Inl (JsError ''Missing parameter. Please check configuration.''), []))
   \<and> (get_prop config ''name'' = Inr nm
        \<and> (\<not> truthy (the_prop config ''username'') \<or> \<not> truthy (the_prop config ''password''))
      \<longrightarrow> ADT_new sc tonum nt config =
            (Inl (JsError ''Missing parameter. Please check configuration.''), []))
   \<and> (truthy (the_prop config ''username'') \<and> truthy (the_prop config ''password'')
      \<longrightarrow> fst (ADT_new sc tonum nt config)
            \<noteq> Inl (JsError ''Missing parameter. Please check configuration.''))"
proof -
  have a: "ADT_new sc tonum nt (JObj i ps) =
            (Inl (JsError ''Missing parameter. Please check configuration.''), [])"
    if "map_of ps ''username'' = None \<or> map_of ps ''password'' = None"
    using that by (auto simp: ADT_new_def the_prop_def Let_def)
  have b: "ADT_new sc tonum nt config =
            (Inl (JsError ''Missing parameter. Please check configuration.''), [])"
    if "get_prop config ''name'' = Inr nm"
      and "\<not> truthy (the_prop config ''username'') \<or> \<not> truthy (the_prop config ''password'')"
    using that by (auto simp: ADT_new_def Let_def)
  have c: "fst (ADT_new sc tonum nt config)
            \<noteq> Inl (JsError ''Missing parameter. Please check configuration.'')"
    if "truthy (the_prop config ''username'')" and "truthy (the_prop config ''password'')"
  proof (cases "get_prop config ''name''")
    case (Inl e)
    then have "config = JUndefined \<or> config = JNull"
      by (cases config) simp_all
    with that show ?thesis
      by (auto simp: the_prop_def)
  next
    case (Inr nm)
    with that show ?thesis
      by (simp add: ADT_new_def Let_def attemptToRecoverFromFailure_missing nullish_read_def)
  qed
  show ?thesis
    using a b c by blast
qed

text \<open>
  The configuration \<^verbatim>\<open>{password: 'b', cacheTTL: 2}\<close> and one with an empty password are
  refused; \<^verbatim>\<open>{username: 'a', password: 'b', cacheTTL: 2}\<close> is not refused for that reason.
\<close>

theorem construction_fails_fast_witness:
  "ADT_new program_scope (\<lambda>v. None) (remote [])
      (JObj 50 [(''password'', JStr ''b''), (''cacheTTL'', JNum 2)]) =
     (Inl (JsError ''Missing parameter. Please check configuration.''), [])
   \<and> ADT_new program_scope (\<lambda>v. None) (remote [])
      (JObj 51 [(''username'', JStr ''a''), (''password'', JStr []), (''cacheTTL'', JNum 2)]) =
     (Inl (JsError ''Missing parameter. Please check configuration.''), [])
   \<and> fst (ADT_new program_scope (\<lambda>v. None) (remote [])
      (JObj 52 [(''username'', JStr ''a''), (''password'', JStr ''b''), (''cacheTTL'', JNum 2)]))
     \<noteq> Inl (JsError ''Missing parameter. Please check configuration.'')"
  using construction_fails_fast [of "[(''password'', JStr ''b''), (''cacheTTL'', JNum 2)]"
      program_scope "\<lambda>v. None" "remote []" 50]
    construction_fails_fast [where sc = program_scope and tonum = "\<lambda>v. None" and nt = "remote []"
      and config = "JObj 51 [(''username'', JStr ''a''), (''password'', JStr []), (''cacheTTL'', JNum 2)]"
      and nm = JUndefined]
    construction_fails_fast [where sc = program_scope and tonum = "\<lambda>v. None" and nt = "remote []"
      and config = "JObj 52 [(''username'', JStr ''a''), (''password'', JStr ''b''), (''cacheTTL'', JNum 2)]"]
  by (simp add: the_prop_def)

end
